theory Spec2Isabelle
  imports Complex_Main
begin

section \<open>Duval triangle 1 and IEEE C57.104 screening: the model of main.py\<close>

text \<open>
  Numbers. The Python code computes on floats (and on ints where the caller passes
  them). The model reads every number as a \<^typ>\<open>real\<close> and every decimal literal
  of the source (\<open>0.01\<close>, \<open>0.2\<close>, \<open>1e-6\<close>) as the decimal it denotes, with exact
  arithmetic; rounding of the float operations is not modelled. A value that may be
  \<open>None\<close> in the source is a \<^typ>\<open>real option\<close>.
\<close>

subsection \<open>tern2cart\<close>

text \<open>
  On scalars \<open>np.atleast_1d\<close> followed by \<open>np.squeeze\<close> is the identity, so the
  function is the pair of the two formulas.
\<close>

definition tern2cart :: "real \<Rightarrow> real \<Rightarrow> real \<Rightarrow> real \<times> real" where
  "tern2cart ch4 c2h4 c2h2 =
     (let x = c2h4 / 100 + ch4 / 200;
          y = ch4 / 100
      in (x, y))"

subsection \<open>clasificar_duval\<close>

text \<open>
  The function returns one of nine strings. They are the constructors of \<open>zona\<close>:
  \<open>PD\<close>, \<open>T1\<close>, \<open>T2\<close>, \<open>T3\<close>, \<open>D1\<close>, \<open>D2\<close>, \<open>DT\<close> for the strings of the same
  spelling, \<open>NA\<close> for \<open>"N/A"\<close> and \<open>Fuera\<close> for the string
  \<open>"Fuera (suma /= 100%)"\<close> (written with the not-equal sign in the source).
\<close>

datatype zona = PD | T1 | T2 | T3 | D1 | D2 | DT | NA | Fuera

definition clasificar_duval :: "real \<Rightarrow> real \<Rightarrow> real \<Rightarrow> zona" where
  "clasificar_duval ch4 c2h4 c2h2 =
     (let total = ch4 + c2h4 + c2h2 in
      if total = 0 then NA
      else if \<bar>ch4 + c2h4 + c2h2 - 100\<bar> > 0.01 then Fuera
      else if ch4 \<ge> 98 then PD
      else if c2h2 < 4 \<and> c2h4 < 20 then T1
      else if c2h2 < 4 \<and> 20 \<le> c2h4 \<and> c2h4 < 50 then T2
      else if c2h2 < 15 \<and> c2h4 \<ge> 50 then T3
      else if c2h2 \<ge> 13 \<and> c2h4 < 23 then D1
      else if c2h4 \<ge> 23 \<and> c2h2 \<ge> 29 then D2
      else if 23 \<le> c2h4 \<and> c2h4 < 40 \<and> 13 \<le> c2h2 \<and> c2h2 < 29 then D2
      else if 4 \<le> c2h2 \<and> c2h2 < 13 \<and> c2h4 < 50 then DT
      else if 40 \<le> c2h4 \<and> c2h4 < 50 \<and> 13 \<le> c2h2 \<and> c2h2 < 29 then DT
      else if c2h4 \<ge> 50 \<and> 15 \<le> c2h2 \<and> c2h2 < 29 then DT
      else DT)"

subsection \<open>The rule table as the specification words it\<close>

text \<open>
  Rules 3 to 12 of section 4.2 of the specification, in its order, each a guard on
  \<open>(ch4, c2h4, c2h2)\<close> with its zone; \<open>primera_regla\<close> scans a table from the front and
  returns the zone of the first rule whose guard holds, \<open>DT\<close> (rule 13) when none does.
\<close>

type_synonym regla = "(real \<Rightarrow> real \<Rightarrow> real \<Rightarrow> bool) \<times> zona"

definition reglas_spec :: "regla list" where
  "reglas_spec =
     [(\<lambda>ch4 c2h4 c2h2. ch4 \<ge> 98, PD),
      (\<lambda>ch4 c2h4 c2h2. c2h2 < 4 \<and> c2h4 < 20, T1),
      (\<lambda>ch4 c2h4 c2h2. c2h2 < 4 \<and> 20 \<le> c2h4 \<and> c2h4 < 50, T2),
      (\<lambda>ch4 c2h4 c2h2. c2h2 < 15 \<and> c2h4 \<ge> 50, T3),
      (\<lambda>ch4 c2h4 c2h2. c2h2 \<ge> 13 \<and> c2h4 < 23, D1),
      (\<lambda>ch4 c2h4 c2h2. c2h4 \<ge> 23 \<and> c2h2 \<ge> 29, D2),
      (\<lambda>ch4 c2h4 c2h2. 23 \<le> c2h4 \<and> c2h4 < 40 \<and> 13 \<le> c2h2 \<and> c2h2 < 29, D2),
      (\<lambda>ch4 c2h4 c2h2. 4 \<le> c2h2 \<and> c2h2 < 13 \<and> c2h4 < 50, DT),
      (\<lambda>ch4 c2h4 c2h2. 40 \<le> c2h4 \<and> c2h4 < 50 \<and> 13 \<le> c2h2 \<and> c2h2 < 29, DT),
      (\<lambda>ch4 c2h4 c2h2. c2h4 \<ge> 50 \<and> 15 \<le> c2h2 \<and> c2h2 < 29, DT)]"

fun primera_regla :: "regla list \<Rightarrow> real \<Rightarrow> real \<Rightarrow> real \<Rightarrow> zona" where
  "primera_regla [] ch4 c2h4 c2h2 = DT"
| "primera_regla ((g, z) # rs) ch4 c2h4 c2h2 =
     (if g ch4 c2h4 c2h2 then z else primera_regla rs ch4 c2h4 c2h2)"

subsection \<open>The IEEE C57.104-2019 tables\<close>

text \<open>
  A Python dict is a map; a row of limits and a panel of readings map a gas name to a
  number. The two tables are keyed by the ratio class (\<open>leq02\<close>, \<open>gt02\<close>) and then by
  the age bracket (\<open>desc\<close>, \<open>1_9\<close>, \<open>10_30\<close>, \<open>30\<close>).
\<close>

type_synonym fila = "string \<rightharpoonup> real"

definition GASES_IEEE :: "string list" where
  "GASES_IEEE = [''H2'', ''CH4'', ''C2H6'', ''C2H4'', ''C2H2'', ''CO'', ''CO2'']"

definition TABLA_P90 :: "string \<rightharpoonup> (string \<rightharpoonup> fila)" where
  "TABLA_P90 = map_of
     [
       (''leq02'', map_of [
          (''desc'', map_of [(''H2'', 80), (''CH4'', 90), (''C2H6'', 90), (''C2H4'', 50), (''C2H2'', 1), (''CO'', 900), (''CO2'', 9000)]),
          (''1_9'', map_of [(''H2'', 80), (''CH4'', 45), (''C2H6'', 30), (''C2H4'', 20), (''C2H2'', 1), (''CO'', 900), (''CO2'', 5000)]),
          (''10_30'', map_of [(''H2'', 75), (''CH4'', 90), (''C2H6'', 90), (''C2H4'', 50), (''C2H2'', 1), (''CO'', 900), (''CO2'', 10000)]),
          (''30'', map_of [(''H2'', 100), (''CH4'', 110), (''C2H6'', 150), (''C2H4'', 90), (''C2H2'', 1), (''CO'', 900), (''CO2'', 5000)])]),
       (''gt02'', map_of [
          (''desc'', map_of [(''H2'', 40), (''CH4'', 20), (''C2H6'', 15), (''C2H4'', 50), (''C2H2'', 2), (''CO'', 500), (''CO2'', 3500)]),
          (''1_9'', map_of [(''H2'', 40), (''CH4'', 20), (''C2H6'', 15), (''C2H4'', 25), (''C2H2'', 2), (''CO'', 500), (''CO2'', 3500)]),
          (''10_30'', map_of [(''H2'', 40), (''CH4'', 20), (''C2H6'', 15), (''C2H4'', 60), (''C2H2'', 2), (''CO'', 500), (''CO2'', 5500)]),
          (''30'', map_of [(''H2'', 40), (''CH4'', 20), (''C2H6'', 15), (''C2H4'', 60), (''C2H2'', 2), (''CO'', 500), (''CO2'', 5500)])])]"

definition TABLA_P95 :: "string \<rightharpoonup> (string \<rightharpoonup> fila)" where
  "TABLA_P95 = map_of
     [
       (''leq02'', map_of [
          (''desc'', map_of [(''H2'', 200), (''CH4'', 150), (''C2H6'', 175), (''C2H4'', 100), (''C2H2'', 2), (''CO'', 1100), (''CO2'', 12500)]),
          (''1_9'', map_of [(''H2'', 200), (''CH4'', 100), (''C2H6'', 70), (''C2H4'', 40), (''C2H2'', 2), (''CO'', 1100), (''CO2'', 7000)]),
          (''10_30'', map_of [(''H2'', 200), (''CH4'', 150), (''C2H6'', 175), (''C2H4'', 95), (''C2H2'', 2), (''CO'', 1100), (''CO2'', 14000)]),
          (''30'', map_of [(''H2'', 200), (''CH4'', 200), (''C2H6'', 250), (''C2H4'', 175), (''C2H2'', 4), (''CO'', 1100), (''CO2'', 14000)])]),
       (''gt02'', map_of [
          (''desc'', map_of [(''H2'', 90), (''CH4'', 50), (''C2H6'', 40), (''C2H4'', 100), (''C2H2'', 7), (''CO'', 600), (''CO2'', 7000)]),
          (''1_9'', map_of [(''H2'', 90), (''CH4'', 60), (''C2H6'', 30), (''C2H4'', 80), (''C2H2'', 7), (''CO'', 600), (''CO2'', 5000)]),
          (''10_30'', map_of [(''H2'', 90), (''CH4'', 60), (''C2H6'', 40), (''C2H4'', 125), (''C2H2'', 7), (''CO'', 600), (''CO2'', 8000)]),
          (''30'', map_of [(''H2'', 90), (''CH4'', 80), (''C2H6'', 40), (''C2H4'', 125), (''C2H2'', 7), (''CO'', 600), (''CO2'', 8000)])])]"

subsection \<open>The three screening steps\<close>

text \<open>
  \<open>v or 0\<close> in Python is 0 when \<open>v\<close> is \<open>None\<close> or zero, and \<open>v\<close> otherwise;
  \<open>d.get(k, dflt)\<close> is the value at \<open>k\<close>, or \<open>dflt\<close> when \<open>k\<close> is not a key.
\<close>

definition or0 :: "real option \<Rightarrow> real" where
  "or0 v = (case v of None \<Rightarrow> 0 | Some x \<Rightarrow> if x = 0 then 0 else x)"

definition dict_get :: "('k \<rightharpoonup> 'v) \<Rightarrow> 'k \<Rightarrow> 'v \<Rightarrow> 'v" where
  "dict_get d k dflt = (case d k of None \<Rightarrow> dflt | Some v \<Rightarrow> v)"

text \<open>
  Step 1 returns a pair of the ratio key and a display label fixed by the key; the model
  returns the key, \<open>None\<close> for the pair \<open>(None, None)\<close>.
\<close>

definition ieee_paso1_clasificar_sistema :: "real option \<Rightarrow> real option \<Rightarrow> string option" where
  "ieee_paso1_clasificar_sistema o2_ppm n2_ppm =
     (case n2_ppm of
        None \<Rightarrow> None
      | Some n2 \<Rightarrow>
          if n2 = 0 then None
          else
            let ratio = or0 o2_ppm / n2 in
            if ratio \<le> 0.2 then Some ''leq02'' else Some ''gt02'')"

text \<open>
  Step 2. The ratio key is what step 1 returned, so it may be \<open>None\<close>, which is not a
  key of either table: the lookup then gives the default, the empty dict.
\<close>

definition ieee_obtener_limites :: "string option \<Rightarrow> string \<Rightarrow> fila \<times> fila" where
  "ieee_obtener_limites ratio_key age_key =
     (let p90 = dict_get
                  (case ratio_key of None \<Rightarrow> Map.empty | Some k \<Rightarrow> dict_get TABLA_P90 k Map.empty)
                  age_key Map.empty;
          p95 = dict_get
                  (case ratio_key of None \<Rightarrow> Map.empty | Some k \<Rightarrow> dict_get TABLA_P95 k Map.empty)
                  age_key Map.empty
      in (p90, p95))"

text \<open>
  Step 3. The loop over \<open>GASES_IEEE\<close> carries the two flags \<open>(alguno_p95, alguno_p90)\<close>;
  \<open>paso3_gas\<close> is its body. The function returns the condition number with a label and
  a recommendation fixed by the number; the model returns the number (1, 2 or 3).
\<close>

definition paso3_gas :: "fila \<Rightarrow> fila \<Rightarrow> fila \<Rightarrow> string \<Rightarrow> bool \<times> bool \<Rightarrow> bool \<times> bool" where
  "paso3_gas valores_ppm p90 p95 g flags =
     (let v = or0 (valores_ppm g);
          lim95 = or0 (p95 g);
          lim90 = or0 (p90 g);
          alguno_p95 = (if v \<ge> lim95 then True else fst flags);
          alguno_p90 = (if v \<ge> lim90 then True else snd flags)
      in (alguno_p95, alguno_p90))"

definition ieee_paso3_condicion :: "fila \<Rightarrow> fila \<Rightarrow> fila \<Rightarrow> nat" where
  "ieee_paso3_condicion valores_ppm p90 p95 =
     (let flags = fold (paso3_gas valores_ppm p90 p95) GASES_IEEE (False, False) in
      if fst flags then 3
      else if snd flags then 2
      else 1)"

text \<open>
  The caller fills \<open>valores_ieee\<close> gas by gas from seven number inputs; \<open>panel vs\<close> is
  the dict that holds the readings \<open>vs\<close>, given in the order of \<open>GASES_IEEE\<close>.
\<close>

definition panel :: "real list \<Rightarrow> fila" where
  "panel vs = map_of (zip GASES_IEEE vs)"

subsection \<open>The zone fill of plot_duval_triangle\<close>

text \<open>
  \<open>np.linspace a b n\<close> is the array of the \<open>n\<close> samples \<open>a + k * step\<close> with
  \<open>step = (b - a) / (n - 1)\<close>; \<open>linspace a b n k\<close> is its entry \<open>k\<close>. With
  \<open>np.meshgrid\<close> the entry \<open>(i, j)\<close> of \<open>X\<close> is \<open>xx[j]\<close> and that of \<open>Y\<close> is
  \<open>yy[i]\<close>. The arrays \<open>ch4_g\<close>, \<open>c2h4_g\<close>, \<open>c2h2_g\<close> are modelled by their entries.
\<close>

definition linspace :: "real \<Rightarrow> real \<Rightarrow> nat \<Rightarrow> nat \<Rightarrow> real" where
  "linspace a b n k = a + real k * ((b - a) / real (n - 1))"

definition malla_n :: nat where
  "malla_n = 120"

definition xx :: "nat \<Rightarrow> real" where
  "xx j = linspace (1 / 1000000) (1 - 1 / 1000000) malla_n j"

definition yy :: "nat \<Rightarrow> real" where
  "yy i = linspace (1 / 1000000) (1 - 1 / 1000000) malla_n i"

definition ch4_g :: "nat \<Rightarrow> nat \<Rightarrow> real" where
  "ch4_g i j = yy i * 100"

definition c2h4_g :: "nat \<Rightarrow> nat \<Rightarrow> real" where
  "c2h4_g i j = (xx j - yy i / 2) * 100"

definition c2h2_g :: "nat \<Rightarrow> nat \<Rightarrow> real" where
  "c2h2_g i j = 100 - ch4_g i j - c2h4_g i j"

definition inside :: "real \<Rightarrow> real \<Rightarrow> real \<Rightarrow> bool" where
  "inside c4 c24 c22 = (c4 \<ge> 0 \<and> c24 \<ge> 0 \<and> c22 \<ge> 0)"

text \<open>
  \<open>Z[mask] = v\<close> overwrites the entries where the mask holds and leaves the others.
  \<open>Z\<close> starts as NaN everywhere (\<open>None\<close>); the masked assignments run in the order of
  the source, so a later one overwrites an earlier one. \<open>Z_punto\<close> is the final entry
  of \<open>Z\<close> at a grid point with the ternary values \<open>(c4, c24, c22)\<close>.
\<close>

definition asignar :: "bool \<Rightarrow> nat \<Rightarrow> nat option \<Rightarrow> nat option" where
  "asignar msk v z = (if msk then Some v else z)"

definition Z_punto :: "real \<Rightarrow> real \<Rightarrow> real \<Rightarrow> nat option" where
  "Z_punto c4 c24 c22 =
     (let ins = inside c4 c24 c22;
          z = None;
          z = asignar ins 6 z;
          z = asignar (ins \<and> c4 \<ge> 98) 0 z;
          z = asignar (ins \<and> c22 < 4 \<and> c24 < 20) 1 z;
          z = asignar (ins \<and> c22 < 4 \<and> c24 \<ge> 20 \<and> c24 < 50) 2 z;
          z = asignar (ins \<and> c22 < 15 \<and> c24 \<ge> 50) 3 z;
          z = asignar (ins \<and> c22 \<ge> 13 \<and> c24 < 23) 4 z;
          z = asignar (ins \<and> c24 \<ge> 23 \<and> c22 \<ge> 29) 5 z;
          z = asignar (ins \<and> c24 \<ge> 23 \<and> c24 < 40 \<and> c22 \<ge> 13 \<and> c22 < 29) 5 z;
          z = asignar (ins \<and> c22 \<ge> 4 \<and> c22 < 13 \<and> c24 < 50) 6 z;
          z = asignar (ins \<and> c24 \<ge> 40 \<and> c24 < 50 \<and> c22 \<ge> 13 \<and> c22 < 29) 6 z;
          z = asignar (ins \<and> c24 \<ge> 50 \<and> c22 \<ge> 15 \<and> c22 < 29) 6 z
      in z)"

text \<open>
  The fill loop colours, for each index \<open>idx\<close> of \<open>zonas\<close>, the points where \<open>Z\<close> is
  \<open>idx\<close> and \<open>inside\<close> holds, with the colour of that zone: \<open>zona_malla i j\<close> is the
  zone drawn at the grid point \<open>(i, j)\<close>, \<open>None\<close> where nothing is drawn.
\<close>

definition zonas :: "zona list" where
  "zonas = [PD, T1, T2, T3, D1, D2, DT]"

definition zona_punto :: "real \<Rightarrow> real \<Rightarrow> real \<Rightarrow> zona option" where
  "zona_punto c4 c24 c22 =
     (case Z_punto c4 c24 c22 of
        None \<Rightarrow> None
      | Some idx \<Rightarrow>
          if idx < length zonas \<and> inside c4 c24 c22 then Some (zonas ! idx) else None)"

definition zona_malla :: "nat \<Rightarrow> nat \<Rightarrow> zona option" where
  "zona_malla i j = zona_punto (ch4_g i j) (c2h4_g i j) (c2h2_g i j)"

section \<open>Properties of the classifier and the projection\<close>

text \<open>
  C5. For all (ch4, c2h4, c2h2) with ch4 + c2h4 + c2h2 = 100 and ch4 at least 98,
  \<open>clasificar_duval\<close> returns PD.
\<close>

theorem clasificar_duval_PD:
  "ch4 + c2h4 + c2h2 = 100 \<Longrightarrow> ch4 \<ge> 98 \<Longrightarrow> clasificar_duval ch4 c2h4 c2h2 = PD"
  by (simp add: clasificar_duval_def)

theorem clasificar_duval_PD_witness:
  "(99::real) + 1 / 2 + 1 / 2 = 100 \<and> (99::real) \<ge> 98 \<and> clasificar_duval 99 (1 / 2) (1 / 2) = PD"
  using clasificar_duval_PD [of 99 "1 / 2" "1 / 2"] by simp


text \<open>
  C1. For every composition that passes the zero-sum check and the check that the sum
  is within 0.01 of 100, \<open>clasificar_duval\<close> returns the zone of the first rule of the
  specification's table (rules 3 to 12, in that order) whose guard holds, and DT when
  none does. In particular (10, 10, 80) is D1 and (90, 5, 5) is DT, where the guards of
  rules 3 to 9 all fail and the guard of rule 10 holds.
\<close>

theorem clasificar_duval_primera_regla:
  "(ch4 + c2h4 + c2h2 \<noteq> 0 \<and> \<bar>ch4 + c2h4 + c2h2 - 100\<bar> \<le> 0.01 \<longrightarrow>
      clasificar_duval ch4 c2h4 c2h2 = primera_regla reglas_spec ch4 c2h4 c2h2) \<and>
   clasificar_duval 10 10 80 = D1 \<and>
   clasificar_duval 90 5 5 = DT \<and>
   list_all (\<lambda>r. \<not> fst r 90 5 5) (take 7 reglas_spec) \<and>
   fst (reglas_spec ! 7) 90 5 5"
proof -
  have general: "clasificar_duval ch4 c2h4 c2h2 = primera_regla reglas_spec ch4 c2h4 c2h2"
    if "ch4 + c2h4 + c2h2 \<noteq> 0" and "\<bar>ch4 + c2h4 + c2h2 - 100\<bar> \<le> 0.01"
    using that by (simp add: clasificar_duval_def reglas_spec_def)
  have d1: "clasificar_duval 10 10 80 = D1"
    by (simp add: clasificar_duval_def)
  have dt: "clasificar_duval 90 5 5 = DT"
    by (simp add: clasificar_duval_def)
  have fall: "list_all (\<lambda>r. \<not> fst r 90 5 5) (take 7 reglas_spec)"
    by (simp add: reglas_spec_def)
  have r10: "fst (reglas_spec ! 7) 90 5 5"
    by (simp add: reglas_spec_def)
  from general d1 dt fall r10 show ?thesis by blast
qed

theorem clasificar_duval_primera_regla_witness:
  "(30::real) + 30 + 40 \<noteq> 0 \<and> \<bar>(30::real) + 30 + 40 - 100\<bar> \<le> 0.01 \<and>
   clasificar_duval 30 30 40 = primera_regla reglas_spec 30 30 40 \<and>
   primera_regla reglas_spec 30 30 40 = D2"
proof -
  have pre: "(30::real) + 30 + 40 \<noteq> 0 \<and> \<bar>(30::real) + 30 + 40 - 100\<bar> \<le> 0.01"
    by simp
  have eq: "clasificar_duval 30 30 40 = primera_regla reglas_spec 30 30 40"
    using clasificar_duval_primera_regla [of 30 30 40] pre by blast
  have "primera_regla reglas_spec 30 30 40 = D2"
    by (simp add: reglas_spec_def)
  with pre eq show ?thesis by blast
qed

text \<open>
  C7. Malformed input comes back as a sentinel value: (0, 0, 0) is N/A, decided before
  the sum check, and (50, 50, 0.5) is the out-of-range code since its sum is 100.5. The
  function has no failing branch: every input has a result, which is the out-of-range
  code exactly when the sum is non-zero and further than 0.01 from 100, and a fault zone
  exactly when the sum is non-zero and within 0.01 of 100.
\<close>

theorem clasificar_duval_sentinels:
  "clasificar_duval 0 0 0 = NA \<and>
   clasificar_duval 50 50 (1 / 2) = Fuera \<and>
   (clasificar_duval a b c = Fuera \<longleftrightarrow> a + b + c \<noteq> 0 \<and> \<bar>a + b + c - 100\<bar> > 0.01) \<and>
   (clasificar_duval a b c \<in> {PD, T1, T2, T3, D1, D2, DT} \<longleftrightarrow>
      a + b + c \<noteq> 0 \<and> \<bar>a + b + c - 100\<bar> \<le> 0.01)"
proof -
  have na: "clasificar_duval 0 0 0 = NA"
    by (simp add: clasificar_duval_def)
  have fuera: "clasificar_duval 50 50 (1 / 2) = Fuera"
    by (simp add: clasificar_duval_def)
  have out: "clasificar_duval a b c = Fuera \<longleftrightarrow> a + b + c \<noteq> 0 \<and> \<bar>a + b + c - 100\<bar> > 0.01"
    by (simp add: clasificar_duval_def)
  have zone: "clasificar_duval a b c \<in> {PD, T1, T2, T3, D1, D2, DT} \<longleftrightarrow>
      a + b + c \<noteq> 0 \<and> \<bar>a + b + c - 100\<bar> \<le> 0.01"
    by (simp add: clasificar_duval_def)
  from na fuera out zone show ?thesis by blast
qed

text \<open>
  C10. \<open>clasificar_duval\<close> returns N/A exactly when the sum of the three inputs is 0,
  whatever the single inputs are: (-5, 5, 0) is N/A and not the out-of-range code.
\<close>

theorem clasificar_duval_NA_iff:
  "(clasificar_duval ch4 c2h4 c2h2 = NA \<longleftrightarrow> ch4 + c2h4 + c2h2 = 0) \<and>
   clasificar_duval (- 5) 5 0 = NA \<and>
   clasificar_duval (- 5) 5 0 \<noteq> Fuera"
proof -
  have iff: "clasificar_duval ch4 c2h4 c2h2 = NA \<longleftrightarrow> ch4 + c2h4 + c2h2 = 0"
    by (simp add: clasificar_duval_def)
  have ex: "clasificar_duval (- 5) 5 0 = NA"
    by (simp add: clasificar_duval_def)
  from iff ex show ?thesis by simp
qed

text \<open>
  C8. \<open>tern2cart\<close> computes x = c2h4 / 100 + ch4 / 200 and y = ch4 / 100 for every
  input, with no validation, so the pure compositions land on the vertices
  (0.5, 1), (1, 0) and (0, 0).
\<close>

theorem tern2cart_formula:
  "tern2cart ch4 c2h4 c2h2 = (c2h4 / 100 + ch4 / 200, ch4 / 100) \<and>
   tern2cart 100 0 0 = (1 / 2, 1) \<and>
   tern2cart 0 100 0 = (1, 0) \<and>
   tern2cart 0 0 100 = (0, 0)"
  by (simp add: tern2cart_def)

section \<open>Properties of the screening steps\<close>

text \<open>
  The ratio key \<open>leq02\<close> stands for the sealed regime, \<open>gt02\<close> for the free-breathing
  one, and the result \<open>None\<close> of step 1 for the unknown regime. The condition numbers 1,
  2 and 3 are Normal, Caution and Alert.
\<close>

lemma fold_paso3_gas:
  "fold (paso3_gas v p90 p95) gs (a95, a90) =
     (a95 \<or> (\<exists>g\<in>set gs. or0 (v g) \<ge> or0 (p95 g)),
      a90 \<or> (\<exists>g\<in>set gs. or0 (v g) \<ge> or0 (p90 g)))"
  by (induction gs arbitrary: a95 a90) (auto simp: paso3_gas_def Let_def)

lemma ieee_paso3_condicion_flags:
  "ieee_paso3_condicion v p90 p95 =
     (if \<exists>g\<in>set GASES_IEEE. or0 (v g) \<ge> or0 (p95 g) then 3
      else if \<exists>g\<in>set GASES_IEEE. or0 (v g) \<ge> or0 (p90 g) then 2
      else 1)"
  by (simp add: ieee_paso3_condicion_def fold_paso3_gas)

lemma or0_upd_None: "or0 ((m(g := None)) h) = or0 ((m(g \<mapsto> 0)) h)"
  by (simp add: or0_def)

lemma or0_None: "or0 None = 0"
  by (simp add: or0_def)

lemmas paso3_eval = ieee_paso3_condicion_def paso3_gas_def GASES_IEEE_def
  ieee_obtener_limites_def dict_get_def TABLA_P90_def TABLA_P95_def or0_def panel_def

text \<open>
  C6. Step 1 returns the unknown regime when \<open>n2_ppm\<close> is absent or zero. Otherwise it
  returns sealed exactly when the ratio o2 / n2 is at most 0.2 and free-breathing
  exactly when it is above 0.2 (an absent o2 reading counts as 0). In particular
  (20, 100) is sealed, (21, 100) is free-breathing and (5, 0) is unknown.
\<close>

theorem ieee_paso1_clasificar_sistema_ratio:
  "ieee_paso1_clasificar_sistema o2 None = None \<and>
   ieee_paso1_clasificar_sistema o2 (Some 0) = None \<and>
   (n2 \<noteq> 0 \<longrightarrow>
      (ieee_paso1_clasificar_sistema o2 (Some n2) = Some ''leq02'' \<longleftrightarrow> or0 o2 / n2 \<le> 0.2) \<and>
      (ieee_paso1_clasificar_sistema o2 (Some n2) = Some ''gt02'' \<longleftrightarrow> or0 o2 / n2 > 0.2)) \<and>
   ieee_paso1_clasificar_sistema (Some 20) (Some 100) = Some ''leq02'' \<and>
   ieee_paso1_clasificar_sistema (Some 21) (Some 100) = Some ''gt02'' \<and>
   ieee_paso1_clasificar_sistema (Some 5) (Some 0) = None"
  by (simp add: ieee_paso1_clasificar_sistema_def or0_def Let_def)

theorem ieee_paso1_clasificar_sistema_ratio_witness:
  "(100::real) \<noteq> 0 \<and> or0 (Some 30) / 100 > 0.2 \<and>
   ieee_paso1_clasificar_sistema (Some 30) (Some 100) = Some ''gt02''"
proof -
  have "(100::real) \<noteq> 0 \<and> or0 (Some 30) / 100 > 0.2"
    by (simp add: or0_def)
  with ieee_paso1_clasificar_sistema_ratio [of "Some 30" 100] show ?thesis by blast
qed

text \<open>
  C4. Step 3 returns one of three levels, the maximum severity over the 7 gases, with
  inclusive comparisons: Alert (3) if some gas reading is at least its P95 limit, else
  Caution (2) if some gas reading is at least its P90 limit, else Normal (1). With the
  row of the sealed regime and unknown age, where CH4 has P90 = 90 and P95 = 150, a
  panel with CH4 = 150 and the other gases at 0 is Alert; with CH4 = 149 it is Caution.
\<close>

theorem ieee_paso3_condicion_max_severity:
  "ieee_paso3_condicion v p90 p95 =
     (if \<exists>g\<in>set GASES_IEEE. or0 (v g) \<ge> or0 (p95 g) then 3
      else if \<exists>g\<in>set GASES_IEEE. or0 (v g) \<ge> or0 (p90 g) then 2
      else 1) \<and>
   length GASES_IEEE = 7 \<and>
   fst (ieee_obtener_limites (Some ''leq02'') ''desc'') ''CH4'' = Some 90 \<and>
   snd (ieee_obtener_limites (Some ''leq02'') ''desc'') ''CH4'' = Some 150 \<and>
   ieee_paso3_condicion (panel [0, 150, 0, 0, 0, 0, 0])
      (fst (ieee_obtener_limites (Some ''leq02'') ''desc''))
      (snd (ieee_obtener_limites (Some ''leq02'') ''desc'')) = 3 \<and>
   ieee_paso3_condicion (panel [0, 149, 0, 0, 0, 0, 0])
      (fst (ieee_obtener_limites (Some ''leq02'') ''desc''))
      (snd (ieee_obtener_limites (Some ''leq02'') ''desc'')) = 2"
proof -
  have e1: "length GASES_IEEE = 7"
    by (simp add: GASES_IEEE_def)
  have e2: "fst (ieee_obtener_limites (Some ''leq02'') ''desc'') ''CH4'' = Some 90"
    by (simp add: ieee_obtener_limites_def dict_get_def TABLA_P90_def)
  have e3: "snd (ieee_obtener_limites (Some ''leq02'') ''desc'') ''CH4'' = Some 150"
    by (simp add: ieee_obtener_limites_def dict_get_def TABLA_P95_def)
  have e4: "ieee_paso3_condicion (panel [0, 150, 0, 0, 0, 0, 0])
      (fst (ieee_obtener_limites (Some ''leq02'') ''desc''))
      (snd (ieee_obtener_limites (Some ''leq02'') ''desc'')) = 3"
    by (simp add: paso3_eval)
  have e5: "ieee_paso3_condicion (panel [0, 149, 0, 0, 0, 0, 0])
      (fst (ieee_obtener_limites (Some ''leq02'') ''desc''))
      (snd (ieee_obtener_limites (Some ''leq02'') ''desc'')) = 2"
    by (simp add: paso3_eval)
  from ieee_paso3_condicion_flags [of v p90 p95] e1 e2 e3 e4 e5 show ?thesis by simp
qed

text \<open>
  C3, as the claim states it, fails: an absent limit does raise the result. With the
  sealed, unknown-age rows an all-zero panel is Normal; once the H2 limit is taken out
  of both rows, the same panel is Alert.
\<close>

theorem ieee_paso3_condicion_absent_limit_alerts:
  "ieee_paso3_condicion (panel [0, 0, 0, 0, 0, 0, 0])
      (fst (ieee_obtener_limites (Some ''leq02'') ''desc''))
      (snd (ieee_obtener_limites (Some ''leq02'') ''desc'')) = 1 \<and>
   ieee_paso3_condicion (panel [0, 0, 0, 0, 0, 0, 0])
      ((fst (ieee_obtener_limites (Some ''leq02'') ''desc''))(''H2'' := None))
      ((snd (ieee_obtener_limites (Some ''leq02'') ''desc''))(''H2'' := None)) = 3"
  by (simp add: paso3_eval)

text \<open>
  C3, amended. In step 3 a missing gas reading counts as 0 and a missing limit counts
  as 0: dropping an entry gives the same result as setting it to 0. The comparisons are
  inclusive, so a listed gas whose P95 limit is absent and whose reading is not negative
  makes the result Alert, and one whose P90 limit is absent makes it Caution or Alert.
\<close>

theorem ieee_paso3_condicion_missing_as_zero:
  "ieee_paso3_condicion (v(g := None)) p90 p95 = ieee_paso3_condicion (v(g \<mapsto> 0)) p90 p95 \<and>
   ieee_paso3_condicion v (p90(g := None)) p95 = ieee_paso3_condicion v (p90(g \<mapsto> 0)) p95 \<and>
   ieee_paso3_condicion v p90 (p95(g := None)) = ieee_paso3_condicion v p90 (p95(g \<mapsto> 0)) \<and>
   (g \<in> set GASES_IEEE \<and> or0 (v g) \<ge> 0 \<and> p95 g = None \<longrightarrow>
      ieee_paso3_condicion v p90 p95 = 3) \<and>
   (g \<in> set GASES_IEEE \<and> or0 (v g) \<ge> 0 \<and> p90 g = None \<longrightarrow>
      ieee_paso3_condicion v p90 p95 \<ge> 2)"
proof -
  have r: "ieee_paso3_condicion (v(g := None)) p90 p95 =
      ieee_paso3_condicion (v(g \<mapsto> 0)) p90 p95"
    unfolding ieee_paso3_condicion_flags or0_upd_None ..
  have l90: "ieee_paso3_condicion v (p90(g := None)) p95 =
      ieee_paso3_condicion v (p90(g \<mapsto> 0)) p95"
    unfolding ieee_paso3_condicion_flags or0_upd_None ..
  have l95: "ieee_paso3_condicion v p90 (p95(g := None)) =
      ieee_paso3_condicion v p90 (p95(g \<mapsto> 0))"
    unfolding ieee_paso3_condicion_flags or0_upd_None ..
  have a95: "ieee_paso3_condicion v p90 p95 = 3"
    if "g \<in> set GASES_IEEE" and "or0 (v g) \<ge> 0" and "p95 g = None"
  proof -
    from that have "or0 (v g) \<ge> or0 (p95 g)"
      by (simp add: or0_None)
    with that(1) have "\<exists>h\<in>set GASES_IEEE. or0 (v h) \<ge> or0 (p95 h)" ..
    then show ?thesis by (simp add: ieee_paso3_condicion_flags)
  qed
  have a90: "ieee_paso3_condicion v p90 p95 \<ge> 2"
    if "g \<in> set GASES_IEEE" and "or0 (v g) \<ge> 0" and "p90 g = None"
  proof -
    from that have "or0 (v g) \<ge> or0 (p90 g)"
      by (simp add: or0_None)
    with that(1) have "\<exists>h\<in>set GASES_IEEE. or0 (v h) \<ge> or0 (p90 h)" ..
    then show ?thesis by (simp add: ieee_paso3_condicion_flags)
  qed
  from r l90 l95 a95 a90 show ?thesis by blast
qed

theorem ieee_paso3_condicion_missing_as_zero_witness:
  "''H2'' \<in> set GASES_IEEE \<and> or0 (panel [0, 0, 0, 0, 0, 0, 0] ''H2'') \<ge> 0 \<and>
   ((snd (ieee_obtener_limites (Some ''leq02'') ''desc''))(''H2'' := None)) ''H2'' = None \<and>
   ieee_paso3_condicion (panel [0, 0, 0, 0, 0, 0, 0])
      (fst (ieee_obtener_limites (Some ''leq02'') ''desc''))
      ((snd (ieee_obtener_limites (Some ''leq02'') ''desc''))(''H2'' := None)) = 3"
proof -
  have pre: "''H2'' \<in> set GASES_IEEE \<and> or0 (panel [0, 0, 0, 0, 0, 0, 0] ''H2'') \<ge> 0 \<and>
      ((snd (ieee_obtener_limites (Some ''leq02'') ''desc''))(''H2'' := None)) ''H2'' = None"
    by (simp add: GASES_IEEE_def or0_def panel_def)
  with ieee_paso3_condicion_missing_as_zero [of "panel [0, 0, 0, 0, 0, 0, 0]" "''H2''"
      "fst (ieee_obtener_limites (Some ''leq02'') ''desc'')"
      "(snd (ieee_obtener_limites (Some ''leq02'') ''desc''))(''H2'' := None)"]
  show ?thesis by blast
qed

text \<open>Every limit of the 16 table rows is positive.\<close>

lemma filas_positivas_all:
  "list_all (\<lambda>rk. list_all (\<lambda>ak. list_all (\<lambda>g.
       or0 (fst (ieee_obtener_limites (Some rk) ak) g) > 0 \<and>
       or0 (snd (ieee_obtener_limites (Some rk) ak) g) > 0) GASES_IEEE)
     [''desc'', ''1_9'', ''10_30'', ''30'']) [''leq02'', ''gt02'']"
  by (simp add: GASES_IEEE_def ieee_obtener_limites_def dict_get_def TABLA_P90_def
      TABLA_P95_def or0_def)

lemma filas_positivas:
  assumes "ratio_key \<in> {''leq02'', ''gt02''}"
    and "age_key \<in> {''desc'', ''1_9'', ''10_30'', ''30''}"
    and "g \<in> set GASES_IEEE"
  shows "or0 (fst (ieee_obtener_limites (Some ratio_key) age_key) g) > 0 \<and>
         or0 (snd (ieee_obtener_limites (Some ratio_key) age_key) g) > 0"
proof -
  from assms(1) have rk: "ratio_key \<in> set [''leq02'', ''gt02'']" by simp
  from assms(2) have ak: "age_key \<in> set [''desc'', ''1_9'', ''10_30'', ''30'']" by simp
  from filas_positivas_all rk ak assms(3) show ?thesis
    unfolding list_all_iff by blast
qed

text \<open>
  C9, as the claim states it, fails for the unknown regime: step 2 then returns two
  empty rows, and the all-zero panel is Alert.
\<close>

theorem ieee_paso3_condicion_zeros_unknown_regime:
  "ieee_obtener_limites None ''desc'' = (Map.empty, Map.empty) \<and>
   ieee_paso3_condicion (panel [0, 0, 0, 0, 0, 0, 0])
      (fst (ieee_obtener_limites None ''desc''))
      (snd (ieee_obtener_limites None ''desc'')) = 3"
  by (simp add: paso3_eval)

text \<open>
  C9, amended. For the sealed and the free-breathing regime and each of the four age
  brackets, step 3 applied to a panel whose 7 gas readings are all 0, with the rows that
  step 2 selects, returns Normal.
\<close>

theorem ieee_paso3_condicion_zeros_normal:
  assumes "ratio_key \<in> {''leq02'', ''gt02''}"
    and "age_key \<in> {''desc'', ''1_9'', ''10_30'', ''30''}"
    and "\<forall>g\<in>set GASES_IEEE. or0 (v g) = 0"
  shows "ieee_paso3_condicion v (fst (ieee_obtener_limites (Some ratio_key) age_key))
           (snd (ieee_obtener_limites (Some ratio_key) age_key)) = 1"
  using assms filas_positivas [of ratio_key age_key]
  by (simp add: ieee_paso3_condicion_flags not_le)

theorem ieee_paso3_condicion_zeros_normal_witness:
  "''gt02'' \<in> {''leq02'', ''gt02''} \<and> ''10_30'' \<in> {''desc'', ''1_9'', ''10_30'', ''30''} \<and>
   list_all (\<lambda>g. or0 (panel [0, 0, 0, 0, 0, 0, 0] g) = 0) GASES_IEEE \<and>
   ieee_paso3_condicion (panel [0, 0, 0, 0, 0, 0, 0])
      (fst (ieee_obtener_limites (Some ''gt02'') ''10_30''))
      (snd (ieee_obtener_limites (Some ''gt02'') ''10_30'')) = 1"
proof -
  have a: "''gt02'' \<in> {''leq02'', ''gt02''}" by simp
  have b: "''10_30'' \<in> {''desc'', ''1_9'', ''10_30'', ''30''}" by simp
  have c: "list_all (\<lambda>g. or0 (panel [0, 0, 0, 0, 0, 0, 0] g) = 0) GASES_IEEE"
    by (simp add: GASES_IEEE_def panel_def or0_def)
  then have c': "\<forall>g\<in>set GASES_IEEE. or0 (panel [0, 0, 0, 0, 0, 0, 0] g) = 0"
    by (simp add: list_all_iff)
  from ieee_paso3_condicion_zeros_normal [OF a b c'] a b c show ?thesis by blast
qed

section \<open>The zone fill against the classifier\<close>

lemmas malla_eval = ch4_g_def c2h4_g_def c2h2_g_def xx_def yy_def linspace_def malla_n_def

lemmas zona_eval = zona_punto_def Z_punto_def asignar_def inside_def zonas_def
  clasificar_duval_def

text \<open>The ternary values of every grid point sum to 100, so the classifier's two checks pass.\<close>

lemma malla_suma: "ch4_g i j + c2h4_g i j + c2h2_g i j = 100"
  by (simp add: c2h2_g_def)

text \<open>
  Below CH4 = 98 the fill and the classifier give the same zone at every inside point.
  From CH4 = 98 on, the later assignment of index 1 overwrites index 0: the fill draws
  T1 where the classifier returns PD.
\<close>

lemma zona_punto_below_98:
  "inside c4 c24 c22 \<Longrightarrow> c4 + c24 + c22 = 100 \<Longrightarrow> c4 < 98 \<Longrightarrow>
   zona_punto c4 c24 c22 = Some (clasificar_duval c4 c24 c22)"
  by (simp add: zona_eval)

lemma zona_punto_from_98:
  "inside c4 c24 c22 \<Longrightarrow> c4 + c24 + c22 = 100 \<Longrightarrow> c4 \<ge> 98 \<Longrightarrow>
   zona_punto c4 c24 c22 = Some T1 \<and> clasificar_duval c4 c24 c22 = PD"
  by (simp add: zona_eval)

text \<open>
  C2. The zone of the fill should equal the zone of \<open>clasificar_duval\<close> at every inside
  grid sample. The code breaks this at the grid point of row 117 and column 59 of the
  120 by 120 grid: the point is inside, its CH4 value is above 98, the fill draws T1
  there and the classifier returns PD.
\<close>

theorem zona_malla_PD_overwritten:
  "117 < malla_n \<and> 59 < malla_n \<and>
   inside (ch4_g 117 59) (c2h4_g 117 59) (c2h2_g 117 59) \<and>
   ch4_g 117 59 \<ge> 98 \<and>
   zona_malla 117 59 = Some T1 \<and>
   clasificar_duval (ch4_g 117 59) (c2h4_g 117 59) (c2h2_g 117 59) = PD"
  by (simp add: zona_malla_def zona_eval malla_eval)

end
